theory Spec2Isabelle
  imports Complex_Main "HOL-Library.Word"
begin

unbundle bit_operations_syntax

section \<open>OpenTESArena: the voxel render chunk manager\<close>

text \<open>
  A shallow embedding of \<^verbatim>\<open>src/Rendering/RenderChunkManager.cpp\<close>. Every function of
  that file is a HOL function of the same name. What the C++ mutates is passed in and
  returned; a failed \<^verbatim>\<open>DebugAssert\<close>, \<^verbatim>\<open>DebugUnhandledReturnMsg\<close> or
  \<^verbatim>\<open>DebugNotImplementedMsg\<close> is the \<open>Inl\<close> of a sum; \<^verbatim>\<open>DebugLogWarning\<close> and
  \<^verbatim>\<open>DebugLogError\<close> append to a log and go on. C++ \<^verbatim>\<open>double\<close> values are
  modelled as the reals they denote (rounding is not modelled), \<^verbatim>\<open>int\<close> as \<open>int\<close>.
\<close>

subsection \<open>Errors, logging and small helpers\<close>

text \<open>
  Modelled from the spec: the debug macros of \<^verbatim>\<open>components/debug/Debug.h\<close>, which is
  not among the sources. Section 7 of the specification: a violated programming invariant
  terminates through an assertion or crash path, an unimplemented feature raises a
  not-implemented signal, and recoverable failures are logged.
\<close>

datatype error = AssertFailed | Unhandled | NotImplemented | CastOutOfRange

datatype LogEntry = LogWarning string | LogError string

definition bindE :: "error + 'a \<Rightarrow> ('a \<Rightarrow> error + 'b) \<Rightarrow> error + 'b" where
  "bindE m f = (case m of Inl e \<Rightarrow> Inl e | Inr x \<Rightarrow> f x)"

text \<open>Indexing a vector behind \<^verbatim>\<open>DebugAssertIndex\<close>: out of range is a crash.\<close>

definition getAt :: "'a list \<Rightarrow> int \<Rightarrow> error + 'a" where
  "getAt xs i = (if 0 \<le> i \<and> i < int (length xs) then Inr (xs ! nat i) else Inl AssertFailed)"

text \<open>\<^verbatim>\<open>std::clamp(v, lo, hi)\<close>.\<close>

definition clamp :: "int \<Rightarrow> int \<Rightarrow> int \<Rightarrow> int" where
  "clamp v lo hi = (if v < lo then lo else if hi < v then hi else v)"

text \<open>
  \<^verbatim>\<open>static_cast<int>(double)\<close>: truncation toward zero; the behaviour is undefined when
  the truncated value does not fit a 32-bit \<^verbatim>\<open>int\<close>, which the model reports as an error.
\<close>

definition castable :: "real \<Rightarrow> bool" where
  "castable x = (- 2147483649 < x \<and> x < 2147483648)"

definition double_to_int :: "real \<Rightarrow> error + int" where
  "double_to_int x =
     (if castable x then Inr (if 0 \<le> x then \<lfloor>x\<rfloor> else \<lceil>x\<rceil>) else Inl CastOutOfRange)"

subsection \<open>Loaded textures\<close>

type_synonym TextureAsset = string
type_synonym ObjectTextureID = int
type_synonym ChunkInt2 = "int \<times> int"
type_synonym ChasmDefID = int

datatype AnimationType = SolidColor | Animated

record LoadedVoxelTexture =
  textureAsset :: TextureAsset
  objectTextureRef :: ObjectTextureID

record LoadedChasmFloorTextureList =
  animType :: AnimationType
  paletteIndex :: "8 word"
  textureAssets :: "TextureAsset list"
  objectTextureRefs :: "ObjectTextureID list"

record LoadedChasmTextureKey =
  chunkPos :: ChunkInt2
  chasmDefID :: ChasmDefID
  chasmFloorListIndex :: int
  chasmWallIndex :: int

definition initColor :: "8 word \<Rightarrow> ObjectTextureID \<Rightarrow> LoadedChasmFloorTextureList" where
  "initColor pal ref =
     \<lparr>animType = SolidColor, paletteIndex = pal, textureAssets = [], objectTextureRefs = [ref]\<rparr>"

definition initTextured :: "TextureAsset list \<Rightarrow> ObjectTextureID list \<Rightarrow> LoadedChasmFloorTextureList" where
  "initTextured assets refs =
     \<lparr>animType = Animated, paletteIndex = 0, textureAssets = assets, objectTextureRefs = refs\<rparr>"

text \<open>\<^verbatim>\<open>LoadedChasmFloorTextureList::getTextureIndex\<close> (lines 320-338).\<close>

definition getTextureIndex :: "LoadedChasmFloorTextureList \<Rightarrow> real \<Rightarrow> error + int" where
  "getTextureIndex textureList chasmAnimPercent =
     (let textureCount = int (length (objectTextureRefs textureList)) in
      if \<not> 1 \<le> textureCount then Inl AssertFailed
      else (case animType textureList of
              SolidColor \<Rightarrow> Inr 0
            | Animated \<Rightarrow>
                bindE (double_to_int (real_of_int textureCount * chasmAnimPercent))
                  (\<lambda>k. Inr (clamp k 0 (textureCount - 1)))))"

subsection \<open>The graphics backend, the asset service and the debug log\<close>

text \<open>
  Modelled from the spec: the graphics backend (\<^verbatim>\<open>Renderer.h\<close> is not among the
  sources). Section 6: every \<^verbatim>\<open>tryCreate...\<close> call answers a success flag and a handle
  and may fail; \<^verbatim>\<open>populate...\<close> fills a buffer; \<^verbatim>\<open>free...\<close> releases a handle.
  \<open>outcomes\<close> scripts the coming fallible calls, one flag each (a call after the script's
  end succeeds), so that any pattern of failures is an input. Handles are fresh integers
  counted up from \<open>nextID\<close>. The record also carries the debug log.
\<close>

record Env =
  outcomes :: "bool list"
  nextID :: int
  created :: "int list"
  freed :: "int list"
  indexBufferSizes :: "(int \<times> int) list"
  indexBufferData :: "(int \<times> int list) list"
  texels :: "(int \<times> 8 word) list"
  debugLog :: "LogEntry list"

definition DebugLogWarning :: "string \<Rightarrow> Env \<Rightarrow> Env" where
  "DebugLogWarning msg env = env\<lparr>debugLog := debugLog env @ [LogWarning msg]\<rparr>"

definition DebugLogError :: "string \<Rightarrow> Env \<Rightarrow> Env" where
  "DebugLogError msg env = env\<lparr>debugLog := debugLog env @ [LogError msg]\<rparr>"

definition nextOutcome :: "Env \<Rightarrow> bool \<times> Env" where
  "nextOutcome env =
     (case outcomes env of [] \<Rightarrow> (True, env) | ok # rest \<Rightarrow> (ok, env\<lparr>outcomes := rest\<rparr>))"

definition tryCreateHandle :: "Env \<Rightarrow> int option \<times> Env" where
  "tryCreateHandle env =
     (case nextOutcome env of
        (ok, env1) \<Rightarrow>
          if ok
          then (Some (nextID env1),
                env1\<lparr>nextID := nextID env1 + 1, created := created env1 @ [nextID env1]\<rparr>)
          else (None, env1))"

definition tryCreateVertexBuffer :: "int \<Rightarrow> int \<Rightarrow> Env \<Rightarrow> int option \<times> Env" where
  "tryCreateVertexBuffer vertexCount componentsPerVertex env = tryCreateHandle env"

definition tryCreateAttributeBuffer :: "int \<Rightarrow> int \<Rightarrow> Env \<Rightarrow> int option \<times> Env" where
  "tryCreateAttributeBuffer vertexCount componentsPerVertex env = tryCreateHandle env"

definition tryCreateIndexBuffer :: "int \<Rightarrow> Env \<Rightarrow> int option \<times> Env" where
  "tryCreateIndexBuffer indexCount env =
     (case tryCreateHandle env of
        (None, env1) \<Rightarrow> (None, env1)
      | (Some h, env1) \<Rightarrow>
          (Some h, env1\<lparr>indexBufferSizes := (h, indexCount) # indexBufferSizes env1\<rparr>))"

definition populateIndexBuffer :: "int \<Rightarrow> int list \<Rightarrow> Env \<Rightarrow> Env" where
  "populateIndexBuffer h indices env = env\<lparr>indexBufferData := (h, indices) # indexBufferData env\<rparr>"

definition tryCreateObjectTexture :: "Env \<Rightarrow> int option \<times> Env" where
  "tryCreateObjectTexture env = tryCreateHandle env"

definition lockObjectTexture :: "int \<Rightarrow> Env \<Rightarrow> bool \<times> Env" where
  "lockObjectTexture h env = nextOutcome env"

definition writeTexel :: "int \<Rightarrow> 8 word \<Rightarrow> Env \<Rightarrow> Env" where
  "writeTexel h v env = env\<lparr>texels := (h, v) # texels env\<rparr>"

definition freeHandle :: "int \<Rightarrow> Env \<Rightarrow> Env" where
  "freeHandle h env = env\<lparr>freed := freed env @ [h]\<rparr>"

text \<open>
  The asset service (\<^verbatim>\<open>TextureManager::tryGetTextureBuilderID\<close>) is a parameter
  \<open>textureManager\<close> of the loaders: \<open>None\<close> is a missing asset.
\<close>

type_synonym TextureManager = "TextureAsset \<Rightarrow> int option"

subsection \<open>The texture caches: \<^verbatim>\<open>namespace sgTexture\<close>\<close>

text \<open>A \<^verbatim>\<open>VoxelTextureDefinition\<close> is its \<^verbatim>\<open>textureCount\<close> texture assets.\<close>

type_synonym VoxelTextureDefinition = "TextureAsset list"

definition getTextureAsset :: "VoxelTextureDefinition \<Rightarrow> int \<Rightarrow> error + TextureAsset" where
  "getTextureAsset voxelTextureDef i = getAt voxelTextureDef i"

record ChasmDefinition =
  chasmAnimType :: AnimationType
  solidColorPaletteIndex :: "8 word"
  animatedTextureAssets :: "TextureAsset list"
  wallTextureAsset :: TextureAsset

text \<open>\<^verbatim>\<open>std::find_if\<close> followed by \<^verbatim>\<open>std::distance\<close> from \<^verbatim>\<open>begin()\<close>.\<close>

fun findIndex :: "('a \<Rightarrow> bool) \<Rightarrow> 'a list \<Rightarrow> nat option" where
  "findIndex P [] = None"
| "findIndex P (x # xs) = (if P x then Some 0 else map_option Suc (findIndex P xs))"

text \<open>\<^verbatim>\<open>sgTexture::LoadVoxelDefTextures\<close> (lines 92-127), the loop over the definition's assets.\<close>

fun LoadVoxelDefTextures ::
  "TextureManager \<Rightarrow> VoxelTextureDefinition \<Rightarrow> LoadedVoxelTexture list \<times> Env \<Rightarrow>
     LoadedVoxelTexture list \<times> Env" where
  "LoadVoxelDefTextures textureManager [] st = st"
| "LoadVoxelDefTextures textureManager (asset # rest) (voxelTextures, env) =
     (case find (\<lambda>loadedTexture. textureAsset loadedTexture = asset) voxelTextures of
        Some _ \<Rightarrow> LoadVoxelDefTextures textureManager rest (voxelTextures, env)
      | None \<Rightarrow>
          (case textureManager asset of
             None \<Rightarrow>
               LoadVoxelDefTextures textureManager rest
                 (voxelTextures, DebugLogWarning ''Could not load voxel texture'' env)
           | Some textureBuilderID \<Rightarrow>
               (case tryCreateObjectTexture env of
                  (None, env1) \<Rightarrow>
                    LoadVoxelDefTextures textureManager rest
                      (voxelTextures, DebugLogWarning ''Could not create voxel texture'' env1)
                | (Some voxelTextureID, env1) \<Rightarrow>
                    LoadVoxelDefTextures textureManager rest
                      (voxelTextures @
                         [\<lparr>textureAsset = asset, objectTextureRef = voxelTextureID\<rparr>], env1))))"

text \<open>\<^verbatim>\<open>sgTexture::LoadedChasmFloorComparer\<close> (lines 129-164).\<close>

definition LoadedChasmFloorComparer :: "LoadedChasmFloorTextureList \<Rightarrow> ChasmDefinition \<Rightarrow> bool" where
  "LoadedChasmFloorComparer textureList chasmDef =
     (if animType textureList \<noteq> chasmAnimType chasmDef then False
      else (case animType textureList of
              SolidColor \<Rightarrow> paletteIndex textureList = solidColorPaletteIndex chasmDef
            | Animated \<Rightarrow> textureAssets textureList = animatedTextureAssets chasmDef))"

text \<open>
  The loop of lines 237-258 over an Animated definition's assets: an asset that cannot be
  loaded or uploaded is skipped with a warning.
\<close>

fun loadAnimatedChasmTextures ::
  "TextureManager \<Rightarrow> TextureAsset list \<Rightarrow> TextureAsset list \<times> ObjectTextureID list \<times> Env \<Rightarrow>
     TextureAsset list \<times> ObjectTextureID list \<times> Env" where
  "loadAnimatedChasmTextures textureManager [] st = st"
| "loadAnimatedChasmTextures textureManager (asset # rest) (newTextureAssets, newObjectTextureRefs, env) =
     (case textureManager asset of
        None \<Rightarrow>
          loadAnimatedChasmTextures textureManager rest
            (newTextureAssets, newObjectTextureRefs, DebugLogWarning ''Could not load chasm texture'' env)
      | Some textureBuilderID \<Rightarrow>
          (case tryCreateObjectTexture env of
             (None, env1) \<Rightarrow>
               loadAnimatedChasmTextures textureManager rest
                 (newTextureAssets, newObjectTextureRefs,
                  DebugLogWarning ''Could not create chasm texture'' env1)
           | (Some chasmTextureID, env1) \<Rightarrow>
               loadAnimatedChasmTextures textureManager rest
                 (newTextureAssets @ [asset], newObjectTextureRefs @ [chasmTextureID], env1)))"

text \<open>
  The three vectors \<^verbatim>\<open>LoadChasmDefTextures\<close> works on, with the environment. Its result
  is \<open>Inl\<close> when one of its assertions fails.
\<close>

record ChasmCaches =
  floorLists :: "LoadedChasmFloorTextureList list"
  textureKeys :: "LoadedChasmTextureKey list"
  cenv :: Env

text \<open>
  Lines 271-287: the wall texture must already be a loaded voxel texture; then the key
  joining chunk, definition, floor list and wall texture is appended.
\<close>

definition addChasmTextureKey ::
  "ChunkInt2 \<Rightarrow> ChasmDefID \<Rightarrow> ChasmDefinition \<Rightarrow> LoadedVoxelTexture list \<Rightarrow> int \<Rightarrow>
     ChasmCaches \<Rightarrow> error + ChasmCaches" where
  "addChasmTextureKey chunkPosition chasmDefId chasmDef voxelTextures floorListIndex caches =
     (case findIndex (\<lambda>voxelTexture. textureAsset voxelTexture = wallTextureAsset chasmDef) voxelTextures of
        None \<Rightarrow> Inl AssertFailed
      | Some wallIndex \<Rightarrow>
          if \<not> 0 \<le> floorListIndex then Inl AssertFailed
          else Inr (caches\<lparr>textureKeys := textureKeys caches @
                      [\<lparr>chunkPos = chunkPosition, chasmDefID = chasmDefId,
                        chasmFloorListIndex = floorListIndex,
                        chasmWallIndex = int wallIndex\<rparr>]\<rparr>))"

text \<open>\<^verbatim>\<open>sgTexture::LoadChasmDefTextures\<close> (lines 166-288).\<close>

definition LoadChasmDefTextures ::
  "TextureManager \<Rightarrow> ChunkInt2 \<Rightarrow> ChasmDefID \<Rightarrow> ChasmDefinition \<Rightarrow> LoadedVoxelTexture list \<Rightarrow>
     ChasmCaches \<Rightarrow> error + ChasmCaches" where
  "LoadChasmDefTextures textureManager chunkPosition chasmDefId chasmDef voxelTextures caches =
     (case find (\<lambda>loadedKey. chasmDefID loadedKey = chasmDefId \<and> chunkPos loadedKey = chunkPosition)
             (textureKeys caches) of
        Some _ \<Rightarrow> Inr caches
      | None \<Rightarrow>
          (case findIndex (\<lambda>textureList. LoadedChasmFloorComparer textureList chasmDef)
                  (floorLists caches) of
             Some i \<Rightarrow> addChasmTextureKey chunkPosition chasmDefId chasmDef voxelTextures (int i) caches
           | None \<Rightarrow>
               (case chasmAnimType chasmDef of
                  SolidColor \<Rightarrow>
                    (case tryCreateObjectTexture (cenv caches) of
                       (None, env1) \<Rightarrow>
                         Inr (caches\<lparr>cenv := DebugLogWarning ''Could not create dry chasm texture'' env1\<rparr>)
                     | (Some dryChasmTextureID, env1) \<Rightarrow>
                         (case lockObjectTexture dryChasmTextureID env1 of
                            (False, env2) \<Rightarrow>
                              Inr (caches\<lparr>cenv := freeHandle dryChasmTextureID
                                     (DebugLogWarning ''Could not lock dry chasm texture for writing'' env2)\<rparr>)
                          | (True, env2) \<Rightarrow>
                              addChasmTextureKey chunkPosition chasmDefId chasmDef voxelTextures
                                (int (length (floorLists caches)))
                                (caches\<lparr>floorLists := floorLists caches @
                                           [initColor (solidColorPaletteIndex chasmDef) dryChasmTextureID],
                                        cenv := writeTexel dryChasmTextureID
                                                  (solidColorPaletteIndex chasmDef) env2\<rparr>)))
                | Animated \<Rightarrow>
                    (case loadAnimatedChasmTextures textureManager (animatedTextureAssets chasmDef)
                            ([], [], cenv caches) of
                       (newTextureAssets, newObjectTextureRefs, env1) \<Rightarrow>
                         addChasmTextureKey chunkPosition chasmDefId chasmDef voxelTextures
                           (int (length (floorLists caches)))
                           (caches\<lparr>floorLists := floorLists caches @
                                      [initTextured newTextureAssets newObjectTextureRefs],
                                   cenv := env1\<rparr>)))))"

subsection \<open>The voxel chunk, as the manager reads it\<close>

datatype VoxelType =
  VoxelNone | Wall | Floor | Ceiling | Raised | Diagonal | TransparentWall | Edge | Chasm | Door

datatype ChasmType = Dry | Wet | Lava

datatype DoorType = Swinging | Sliding | Raising | Splitting

datatype VoxelFacing2D = PositiveX | NegativeX | PositiveZ | NegativeZ

type_synonym VoxelInt3 = "int \<times> int \<times> int"
type_synonym Double3 = "real \<times> real \<times> real"

text \<open>
  \<^verbatim>\<open>VoxelMeshDefinition\<close>: \<open>opaqueIndices\<close> holds one index list per opaque group, so
  \<^verbatim>\<open>opaqueIndicesListCount\<close> is its length.
\<close>

record VoxelMeshDefinition =
  isEmpty :: bool
  rendererVertexCount :: int
  opaqueIndices :: "int list list"
  alphaTestedIndices :: "int list"
  alphaTestedIndicesListCount :: int

text \<open>\<^verbatim>\<open>VoxelTraitsDefinition\<close> (\<^verbatim>\<open>Voxels/VoxelTraitsDefinition.h\<close>): the type and the chasm member.\<close>

record VoxelTraitsDefinition =
  voxelType :: VoxelType
  chasmType :: ChasmType

text \<open>
  \<^verbatim>\<open>VoxelChunk\<close> is not among the sources; it is the record of what its accessors answer.
  A \<^verbatim>\<open>tryGet...\<close> accessor is a partial map on voxel coordinates; the instance behind an
  instance index is stored at the coordinate directly: the fade percent, the door's open
  percent, the door's visible faces (\<^verbatim>\<open>visibleFaces[0 .. visibleFaceCount)\<close>) and the chasm
  wall's north, east, south and west flags.
\<close>

record VoxelChunk =
  chunkPosition :: ChunkInt2
  chunkHeight :: nat
  chunkTextureDefs :: "VoxelTextureDefinition list"
  chunkChasmDefs :: "ChasmDefinition list"
  chunkMeshDefs :: "VoxelMeshDefinition list"
  chunkTraitsDefs :: "VoxelTraitsDefinition list"
  chunkDoorDefs :: "DoorType list"
  chunkMeshDefIDs :: "VoxelInt3 \<Rightarrow> int"
  chunkTextureDefIDs :: "VoxelInt3 \<Rightarrow> int"
  chunkTraitsDefIDs :: "VoxelInt3 \<Rightarrow> int"
  tryGetDoorDefID :: "VoxelInt3 \<Rightarrow> int option"
  tryGetChasmDefID :: "VoxelInt3 \<Rightarrow> int option"
  tryGetFadeAnimInst :: "VoxelInt3 \<Rightarrow> real option"
  tryGetDoorAnimInst :: "VoxelInt3 \<Rightarrow> real option"
  tryGetDoorVisibilityInst :: "VoxelInt3 \<Rightarrow> VoxelFacing2D list option"
  tryGetChasmWallInst :: "VoxelInt3 \<Rightarrow> (bool \<times> bool \<times> bool \<times> bool) option"

definition getMeshDef :: "VoxelChunk \<Rightarrow> int \<Rightarrow> error + VoxelMeshDefinition" where
  "getMeshDef chunk i = getAt (chunkMeshDefs chunk) i"

definition getTextureDef :: "VoxelChunk \<Rightarrow> int \<Rightarrow> error + VoxelTextureDefinition" where
  "getTextureDef chunk i = getAt (chunkTextureDefs chunk) i"

definition getTraitsDef :: "VoxelChunk \<Rightarrow> int \<Rightarrow> error + VoxelTraitsDefinition" where
  "getTraitsDef chunk i = getAt (chunkTraitsDefs chunk) i"

definition getChasmDef :: "VoxelChunk \<Rightarrow> int \<Rightarrow> error + ChasmDefinition" where
  "getChasmDef chunk i = getAt (chunkChasmDefs chunk) i"

definition getDoorDef :: "VoxelChunk \<Rightarrow> int \<Rightarrow> error + DoorType" where
  "getDoorDef chunk i = getAt (chunkDoorDefs chunk) i"

subsection \<open>Constants and tables the sources do not give\<close>

text \<open>
  Taken as parameters: \<^verbatim>\<open>Chunk::WIDTH\<close> and \<^verbatim>\<open>Chunk::DEPTH\<close>,
  \<^verbatim>\<open>VoxelUtils::chunkVoxelToNewVoxel\<close>, \<^verbatim>\<open>Constants::Epsilon\<close>,
  \<^verbatim>\<open>ArenaRenderUtils::DOOR_MIN_VISIBLE\<close>, the tables of \<^verbatim>\<open>DoorUtils\<close>,
  \<^verbatim>\<open>VoxelDoorVisibilityInstance::MAX_FACE_COUNT\<close>, and for the chasm walls the four
  face masks, the size of the manager's table, \<^verbatim>\<open>ArenaMeshUtils::GetChasmWallIndex\<close> and
  the four index patterns \<^verbatim>\<open>WriteChasmWallRendererIndexBuffers\<close> writes.
\<close>

record Consts =
  CHUNK_WIDTH :: nat
  CHUNK_DEPTH :: nat
  chunkVoxelToNewVoxel :: "ChunkInt2 \<Rightarrow> int \<times> int \<Rightarrow> int \<times> int"
  Epsilon :: real
  DOOR_MIN_VISIBLE :: real
  FACE_COUNT :: nat
  Facings :: "nat \<Rightarrow> VoxelFacing2D"
  SwingingHingeOffsets :: "nat \<Rightarrow> Double3"
  BaseAngles :: "nat \<Rightarrow> real"
  MAX_FACE_COUNT :: nat
  CHASM_WALL_NORTH :: int
  CHASM_WALL_EAST :: int
  CHASM_WALL_SOUTH :: int
  CHASM_WALL_WEST :: int
  CHASM_WALL_COMBINATION_COUNT :: nat
  GetChasmWallIndex :: "bool \<Rightarrow> bool \<Rightarrow> bool \<Rightarrow> bool \<Rightarrow> int"
  northIndices :: "int list"
  eastIndices :: "int list"
  southIndices :: "int list"
  westIndices :: "int list"

text \<open>\<^verbatim>\<open>Constants::HalfPi\<close>.\<close>

definition HalfPi :: real where
  "HalfPi = pi / 2"

text \<open>\<^verbatim>\<open>ArenaMeshUtils::ChasmWallIndexBuffer\<close> is \<^verbatim>\<open>std::array<int32_t, 6>\<close>.\<close>

definition indicesPerFace :: int where
  "indicesPerFace = 6"

subsection \<open>Render chunks and draw calls\<close>

datatype Matrix4d = Identity | YRotation real | Scale real real real

datatype TextureSamplingType = Default | ScreenSpaceRepeatY

datatype VertexShaderType = Voxel | SwingingDoor | SlidingDoor | RaisingDoor

datatype PixelShaderType =
  Opaque | OpaqueWithAlphaTestLayer | AlphaTested
  | AlphaTestedWithVariableTexCoordUMin | AlphaTestedWithVariableTexCoordVMin | OpaqueWithFade

record RenderDrawCall =
  position :: Double3
  preScaleTranslation :: Double3
  rotation :: Matrix4d
  scale :: Matrix4d
  vertexBufferID :: int
  normalBufferID :: int
  texCoordBufferID :: int
  indexBufferID :: int
  textureID0 :: ObjectTextureID
  textureID1 :: "ObjectTextureID option"
  textureSamplingType :: TextureSamplingType
  vertexShaderType :: VertexShaderType
  pixelShaderType :: PixelShaderType
  pixelShaderParam0 :: real

text \<open>
  Modelled from the spec: \<^verbatim>\<open>RenderVoxelMeshDefinition\<close> and \<^verbatim>\<open>RenderChunk\<close>, whose files
  are not among the sources. Section 3: a render chunk holds its position, the mapping from
  voxel mesh ids to render mesh ids, the render mesh definitions (the GPU buffer handles of
  one mesh shape), the mapping from voxel coordinates to chasm wall index buffers and the
  four draw call lists; it starts empty, a mesh definition starts with no handle (\<open>-1\<close>),
  and freeing releases every handle it holds.
\<close>

record RenderVoxelMeshDefinition =
  rmVertexBufferID :: int
  rmNormalBufferID :: int
  rmTexCoordBufferID :: int
  opaqueIndexBufferIDs :: "int list"
  opaqueIndexBufferIdCount :: int
  alphaTestedIndexBufferID :: int

definition emptyRenderVoxelMeshDefinition :: RenderVoxelMeshDefinition where
  "emptyRenderVoxelMeshDefinition =
     \<lparr>rmVertexBufferID = - 1, rmNormalBufferID = - 1, rmTexCoordBufferID = - 1,
      opaqueIndexBufferIDs = [- 1, - 1, - 1], opaqueIndexBufferIdCount = 0,
      alphaTestedIndexBufferID = - 1\<rparr>"

definition freeIfValid :: "int \<Rightarrow> Env \<Rightarrow> Env" where
  "freeIfValid h env = (if 0 \<le> h then freeHandle h env else env)"

definition freeMeshBuffers :: "RenderVoxelMeshDefinition \<Rightarrow> Env \<Rightarrow> RenderVoxelMeshDefinition \<times> Env" where
  "freeMeshBuffers meshDef env =
     (emptyRenderVoxelMeshDefinition,
      freeIfValid (alphaTestedIndexBufferID meshDef)
        (fold freeHandle (take (nat (opaqueIndexBufferIdCount meshDef)) (opaqueIndexBufferIDs meshDef))
           (freeIfValid (rmTexCoordBufferID meshDef)
              (freeIfValid (rmNormalBufferID meshDef)
                 (freeIfValid (rmVertexBufferID meshDef) env)))))"

record RenderChunk =
  rcPosition :: ChunkInt2
  meshDefs :: "RenderVoxelMeshDefinition list"
  meshDefMappings :: "(int \<times> int) list"
  meshDefIDsDims :: "nat \<times> nat \<times> nat"
  meshDefIDs :: "VoxelInt3 \<Rightarrow> int"
  rcChasmWallIndexBufferIDs :: "(VoxelInt3 \<times> int) list"
  staticDrawCalls :: "RenderDrawCall list"
  doorDrawCalls :: "RenderDrawCall list"
  chasmDrawCalls :: "RenderDrawCall list"
  fadingDrawCalls :: "RenderDrawCall list"

definition initRenderChunk :: "Consts \<Rightarrow> ChunkInt2 \<Rightarrow> nat \<Rightarrow> RenderChunk" where
  "initRenderChunk c pos h =
     \<lparr>rcPosition = pos, meshDefs = [], meshDefMappings = [],
      meshDefIDsDims = (CHUNK_WIDTH c, h, CHUNK_DEPTH c), meshDefIDs = (\<lambda>_. - 1),
      rcChasmWallIndexBufferIDs = [],
      staticDrawCalls = [], doorDrawCalls = [], chasmDrawCalls = [], fadingDrawCalls = []\<rparr>"

text \<open>\<^verbatim>\<open>std::unordered_map::emplace\<close>: an existing key keeps its value.\<close>

definition emplace :: "'k \<Rightarrow> 'v \<Rightarrow> ('k \<times> 'v) list \<Rightarrow> ('k \<times> 'v) list" where
  "emplace k v m = (case map_of m k of None \<Rightarrow> m @ [(k, v)] | Some _ \<Rightarrow> m)"

definition freeChunkBuffers :: "RenderChunk \<Rightarrow> Env \<Rightarrow> RenderChunk \<times> Env" where
  "freeChunkBuffers renderChunk env =
     (renderChunk\<lparr>meshDefs := map (\<lambda>d. fst (freeMeshBuffers d env)) (meshDefs renderChunk)\<rparr>,
      fold (\<lambda>d e. snd (freeMeshBuffers d e)) (meshDefs renderChunk) env)"

record RenderChunkManager =
  voxelTextures :: "LoadedVoxelTexture list"
  chasmFloorTextureLists :: "LoadedChasmFloorTextureList list"
  chasmTextureKeys :: "LoadedChasmTextureKey list"
  renderChunks :: "RenderChunk list"
  chasmWallIndexBufferIDs :: "int list"
  drawCallsCache :: "RenderDrawCall list"

subsection \<open>Startup: the chasm wall index buffers\<close>

definition countFace :: "bool \<Rightarrow> int" where
  "countFace face = (if face then 1 else 0)"

text \<open>
  The lambda \<^verbatim>\<open>tryWriteIndices\<close> of \<^verbatim>\<open>RenderChunkManager::init\<close>: \<^verbatim>\<open>std::copy\<close> of the
  face's indices to \<^verbatim>\<open>totalIndicesBuffer.begin() + writingIndex\<close>, then the index advances.
\<close>

definition tryWriteIndices :: "bool \<Rightarrow> int list \<Rightarrow> int list \<times> int \<Rightarrow> int list \<times> int" where
  "tryWriteIndices hasFace faceIndices st =
     (case st of
        (totalIndicesBuffer, writingIndex) \<Rightarrow>
          if hasFace
          then (take (nat writingIndex) totalIndicesBuffer @ faceIndices @
                  drop (nat writingIndex + length faceIndices) totalIndicesBuffer,
                writingIndex + indicesPerFace)
          else (totalIndicesBuffer, writingIndex))"

text \<open>One iteration of the loop of \<^verbatim>\<open>RenderChunkManager::init\<close> (lines 358-403).\<close>

definition initChasmWallSlot :: "Consts \<Rightarrow> nat \<Rightarrow> int list \<times> Env \<Rightarrow> int list \<times> Env" where
  "initChasmWallSlot c i st =
     (case st of
        (bufferIDs, env) \<Rightarrow>
          (let baseIndex = int i + 1;
               hasNorth = (baseIndex AND CHASM_WALL_NORTH c \<noteq> 0);
               hasEast = (baseIndex AND CHASM_WALL_EAST c \<noteq> 0);
               hasSouth = (baseIndex AND CHASM_WALL_SOUTH c \<noteq> 0);
               hasWest = (baseIndex AND CHASM_WALL_WEST c \<noteq> 0);
               faceCount = countFace hasNorth + countFace hasEast + countFace hasSouth + countFace hasWest
           in if faceCount = 0 then (bufferIDs, env)
              else (case tryCreateIndexBuffer (faceCount * indicesPerFace) env of
                      (None, env1) \<Rightarrow>
                        (bufferIDs, DebugLogError ''Could not create chasm wall index buffer'' env1)
                    | (Some newIndexBufferID, env1) \<Rightarrow>
                        (case tryWriteIndices hasWest (westIndices c)
                                (tryWriteIndices hasSouth (southIndices c)
                                   (tryWriteIndices hasEast (eastIndices c)
                                      (tryWriteIndices hasNorth (northIndices c)
                                         (replicate (nat (indicesPerFace * 4)) 0, 0)))) of
                           (totalIndicesBuffer, writingIndex) \<Rightarrow>
                             (bufferIDs[i := newIndexBufferID],
                              populateIndexBuffer newIndexBufferID
                                (take (nat writingIndex) totalIndicesBuffer) env1)))))"

text \<open>\<^verbatim>\<open>RenderChunkManager::init\<close> (lines 349-404): the table and the environment after it.\<close>

definition init :: "Consts \<Rightarrow> Env \<Rightarrow> int list \<times> Env" where
  "init c env =
     fold (initChasmWallSlot c) [0..<CHASM_WALL_COMBINATION_COUNT c]
       (replicate (CHASM_WALL_COMBINATION_COUNT c) (- 1), env)"

subsection \<open>Lookups\<close>

text \<open>\<^verbatim>\<open>RenderChunkManager::getVoxelTextureID\<close> (lines 426-437).\<close>

definition getVoxelTextureID :: "RenderChunkManager \<Rightarrow> TextureAsset \<Rightarrow> error + ObjectTextureID" where
  "getVoxelTextureID m asset =
     (case find (\<lambda>loadedTexture. textureAsset loadedTexture = asset) (voxelTextures m) of
        None \<Rightarrow> Inl AssertFailed
      | Some loadedTexture \<Rightarrow> Inr (objectTextureRef loadedTexture))"

text \<open>\<^verbatim>\<open>RenderChunkManager::getChasmFloorTextureID\<close> (lines 439-459).\<close>

definition getChasmFloorTextureID ::
  "RenderChunkManager \<Rightarrow> ChunkInt2 \<Rightarrow> ChasmDefID \<Rightarrow> real \<Rightarrow> error + ObjectTextureID" where
  "getChasmFloorTextureID m pos chasmDefId chasmAnimPercent =
     (case find (\<lambda>key. chunkPos key = pos \<and> chasmDefID key = chasmDefId) (chasmTextureKeys m) of
        None \<Rightarrow> Inl AssertFailed
      | Some key \<Rightarrow>
          bindE (getAt (chasmFloorTextureLists m) (chasmFloorListIndex key))
            (\<lambda>textureList.
               bindE (getTextureIndex textureList chasmAnimPercent)
                 (\<lambda>index. getAt (objectTextureRefs textureList) index)))"

text \<open>
  \<^verbatim>\<open>RenderChunkManager::getChasmWallTextureID\<close> (lines 461-476). The source indexes
  \<^verbatim>\<open>voxelTextures\<close> unchecked; an index out of range is reported as an error here.
\<close>

definition getChasmWallTextureID ::
  "RenderChunkManager \<Rightarrow> ChunkInt2 \<Rightarrow> ChasmDefID \<Rightarrow> error + ObjectTextureID" where
  "getChasmWallTextureID m pos chasmDefId =
     (case find (\<lambda>key. chunkPos key = pos \<and> chasmDefID key = chasmDefId) (chasmTextureKeys m) of
        None \<Rightarrow> Inl AssertFailed
      | Some key \<Rightarrow>
          bindE (getAt (voxelTextures m) (chasmWallIndex key))
            (\<lambda>voxelTexture. Inr (objectTextureRef voxelTexture)))"

text \<open>\<^verbatim>\<open>RenderChunkManager::tryGetRenderChunkIndex\<close> (lines 478-490).\<close>

definition tryGetRenderChunkIndex :: "RenderChunkManager \<Rightarrow> ChunkInt2 \<Rightarrow> nat option" where
  "tryGetRenderChunkIndex m pos =
     findIndex (\<lambda>renderChunk. rcPosition renderChunk = pos) (renderChunks m)"

subsection \<open>Loading a chunk\<close>

text \<open>A loop that stops at the first failed assertion.\<close>

fun foldE :: "('a \<Rightarrow> 's \<Rightarrow> error + 's) \<Rightarrow> 'a list \<Rightarrow> 's \<Rightarrow> error + 's" where
  "foldE f [] s = Inr s"
| "foldE f (x # xs) s = bindE (f x s) (foldE f xs)"

text \<open>\<^verbatim>\<open>RenderChunkManager::loadVoxelTextures\<close> (lines 497-511).\<close>

definition loadVoxelTextures ::
  "TextureManager \<Rightarrow> VoxelChunk \<Rightarrow> RenderChunkManager \<times> Env \<Rightarrow> error + RenderChunkManager \<times> Env" where
  "loadVoxelTextures textureManager chunk st =
     (case st of
        (m, env) \<Rightarrow>
          (case fold (LoadVoxelDefTextures textureManager) (chunkTextureDefs chunk) (voxelTextures m, env) of
             (voxelTextures1, env1) \<Rightarrow>
               bindE (foldE (\<lambda>i caches.
                               bindE (getChasmDef chunk (int i))
                                 (\<lambda>chasmDef. LoadChasmDefTextures textureManager (chunkPosition chunk)
                                                (int i) chasmDef voxelTextures1 caches))
                        [0..<length (chunkChasmDefs chunk)]
                        \<lparr>floorLists = chasmFloorTextureLists m, textureKeys = chasmTextureKeys m,
                         cenv = env1\<rparr>)
                 (\<lambda>caches.
                    Inr (m\<lparr>voxelTextures := voxelTextures1,
                           chasmFloorTextureLists := floorLists caches,
                           chasmTextureKeys := textureKeys caches\<rparr>, cenv caches))))"

text \<open>
  The loop of lines 569-586 over the opaque index groups. Its \<^verbatim>\<open>continue\<close> after a failed
  creation continues this inner loop.
\<close>

definition loadOpaqueIndexBuffer ::
  "VoxelMeshDefinition \<Rightarrow> nat \<Rightarrow> RenderVoxelMeshDefinition \<times> Env \<Rightarrow> RenderVoxelMeshDefinition \<times> Env" where
  "loadOpaqueIndexBuffer voxelMeshDef bufferIndex st =
     (case st of
        (renderVoxelMeshDef, env) \<Rightarrow>
          (case tryCreateIndexBuffer (int (length (opaqueIndices voxelMeshDef ! bufferIndex))) env of
             (None, env1) \<Rightarrow>
               freeMeshBuffers renderVoxelMeshDef
                 (DebugLogError ''Could not create opaque index buffer'' env1)
           | (Some opaqueIndexBufferID, env1) \<Rightarrow>
               (renderVoxelMeshDef
                  \<lparr>opaqueIndexBufferIDs := (opaqueIndexBufferIDs renderVoxelMeshDef)[bufferIndex := opaqueIndexBufferID],
                   opaqueIndexBufferIdCount := opaqueIndexBufferIdCount renderVoxelMeshDef + 1\<rparr>,
                populateIndexBuffer opaqueIndexBufferID (opaqueIndices voxelMeshDef ! bufferIndex) env1)))"

text \<open>
  The body of the loop of \<^verbatim>\<open>loadVoxelMeshBuffers\<close> up to line 603 for one mesh definition:
  \<open>None\<close> when a \<^verbatim>\<open>continue\<close> of the outer loop skips the shape, \<open>Some\<close> of the render mesh
  definition that line 605 adds otherwise. The vertex positions, normals and texture
  coordinates written into the buffers are not modelled.
\<close>

definition loadMeshDef :: "VoxelMeshDefinition \<Rightarrow> Env \<Rightarrow> RenderVoxelMeshDefinition option \<times> Env" where
  "loadMeshDef voxelMeshDef env =
     (if isEmpty voxelMeshDef then (Some emptyRenderVoxelMeshDefinition, env)
      else (case tryCreateVertexBuffer (rendererVertexCount voxelMeshDef) 3 env of
              (None, env1) \<Rightarrow> (None, DebugLogError ''Could not create vertex buffer'' env1)
            | (Some vertexBufferId, env1) \<Rightarrow>
        (case tryCreateAttributeBuffer (rendererVertexCount voxelMeshDef) 3 env1 of
              (None, env2) \<Rightarrow>
                (None, snd (freeMeshBuffers
                              (emptyRenderVoxelMeshDefinition\<lparr>rmVertexBufferID := vertexBufferId\<rparr>)
                              (DebugLogError ''Could not create normal attribute buffer'' env2)))
            | (Some normalBufferId, env2) \<Rightarrow>
        (case tryCreateAttributeBuffer (rendererVertexCount voxelMeshDef) 2 env2 of
              (None, env3) \<Rightarrow>
                (None, snd (freeMeshBuffers
                              (emptyRenderVoxelMeshDefinition
                                 \<lparr>rmVertexBufferID := vertexBufferId, rmNormalBufferID := normalBufferId\<rparr>)
                              (DebugLogError ''Could not create tex coord attribute buffer'' env3)))
            | (Some texCoordBufferId, env3) \<Rightarrow>
        (case fold (loadOpaqueIndexBuffer voxelMeshDef) [0..<length (opaqueIndices voxelMeshDef)]
                (emptyRenderVoxelMeshDefinition
                   \<lparr>rmVertexBufferID := vertexBufferId, rmNormalBufferID := normalBufferId,
                    rmTexCoordBufferID := texCoordBufferId\<rparr>, env3) of
              (renderVoxelMeshDef, env4) \<Rightarrow>
                if 0 < alphaTestedIndicesListCount voxelMeshDef
                then (case tryCreateIndexBuffer (int (length (alphaTestedIndices voxelMeshDef))) env4 of
                        (None, env5) \<Rightarrow>
                          (None, snd (freeMeshBuffers renderVoxelMeshDef
                                        (DebugLogError ''Could not create alpha-tested index buffer'' env5)))
                      | (Some alphaTestedId, env5) \<Rightarrow>
                          (Some (renderVoxelMeshDef\<lparr>alphaTestedIndexBufferID := alphaTestedId\<rparr>),
                           populateIndexBuffer alphaTestedId (alphaTestedIndices voxelMeshDef) env5))
                else (Some renderVoxelMeshDef, env4))))))"

text \<open>\<^verbatim>\<open>RenderChunkManager::loadVoxelMeshBuffers\<close> (lines 513-608).\<close>

definition loadVoxelMeshBuffersStep :: "VoxelChunk \<Rightarrow> nat \<Rightarrow> RenderChunk \<times> Env \<Rightarrow> RenderChunk \<times> Env" where
  "loadVoxelMeshBuffersStep chunk meshDefIndex st =
     (case st of
        (renderChunk, env) \<Rightarrow>
          (case loadMeshDef (chunkMeshDefs chunk ! meshDefIndex) env of
             (None, env1) \<Rightarrow> (renderChunk, env1)
           | (Some renderVoxelMeshDef, env1) \<Rightarrow>
               (renderChunk
                  \<lparr>meshDefs := meshDefs renderChunk @ [renderVoxelMeshDef],
                   meshDefMappings := emplace (int meshDefIndex) (int (length (meshDefs renderChunk)))
                                        (meshDefMappings renderChunk)\<rparr>, env1)))"

definition loadVoxelMeshBuffers :: "VoxelChunk \<Rightarrow> RenderChunk \<times> Env \<Rightarrow> RenderChunk \<times> Env" where
  "loadVoxelMeshBuffers chunk st =
     fold (loadVoxelMeshBuffersStep chunk) [0..<length (chunkMeshDefs chunk)] st"

text \<open>The voxels of a chunk in the order of the nested loops: z outermost, then y, then x.\<close>

definition voxelCoords :: "nat \<Rightarrow> nat \<Rightarrow> nat \<Rightarrow> VoxelInt3 list" where
  "voxelCoords w h d =
     concat (map (\<lambda>z. concat (map (\<lambda>y. map (\<lambda>x. (int x, int y, int z)) [0..<w]) [0..<h])) [0..<d])"

text \<open>\<^verbatim>\<open>RenderChunkManager::loadVoxelChasmWalls\<close> (lines 610-637).\<close>

definition loadVoxelChasmWallsStep ::
  "Consts \<Rightarrow> RenderChunkManager \<Rightarrow> VoxelChunk \<Rightarrow> VoxelInt3 \<Rightarrow> RenderChunk \<Rightarrow> error + RenderChunk" where
  "loadVoxelChasmWallsStep c m chunk voxel renderChunk =
     (case tryGetChasmWallInst chunk voxel of
        None \<Rightarrow> Inr renderChunk
      | Some (north, east, south, west) \<Rightarrow>
          if \<not> 0 < countFace north + countFace east + countFace south + countFace west
          then Inl AssertFailed
          else bindE (getAt (chasmWallIndexBufferIDs m) (GetChasmWallIndex c north east south west))
                 (\<lambda>indexBufferId.
                    Inr (renderChunk\<lparr>rcChasmWallIndexBufferIDs :=
                           emplace voxel indexBufferId (rcChasmWallIndexBufferIDs renderChunk)\<rparr>)))"

definition loadVoxelChasmWalls ::
  "Consts \<Rightarrow> RenderChunkManager \<Rightarrow> VoxelChunk \<Rightarrow> RenderChunk \<Rightarrow> error + RenderChunk" where
  "loadVoxelChasmWalls c m chunk renderChunk =
     (if rcChasmWallIndexBufferIDs renderChunk \<noteq> [] then Inl AssertFailed
      else foldE (loadVoxelChasmWallsStep c m chunk)
             (voxelCoords (CHUNK_WIDTH c) (chunkHeight chunk) (CHUNK_DEPTH c)) renderChunk)"

text \<open>\<^verbatim>\<open>RenderChunkManager::loadVoxelChunk\<close> (lines 998-1009).\<close>

definition loadVoxelChunk ::
  "Consts \<Rightarrow> TextureManager \<Rightarrow> VoxelChunk \<Rightarrow> RenderChunkManager \<times> Env \<Rightarrow>
     error + RenderChunkManager \<times> Env" where
  "loadVoxelChunk c textureManager chunk st =
     bindE (loadVoxelTextures textureManager chunk st)
       (\<lambda>(m1, env1).
          (case loadVoxelMeshBuffers chunk
                  (initRenderChunk c (chunkPosition chunk) (chunkHeight chunk), env1) of
             (renderChunk1, env2) \<Rightarrow>
               bindE (loadVoxelChasmWalls c m1 chunk renderChunk1)
                 (\<lambda>renderChunk2.
                    Inr (m1\<lparr>renderChunks := renderChunks m1 @ [renderChunk2]\<rparr>, env2))))"

text \<open>\<^verbatim>\<open>RenderChunkManager::unloadVoxelChunk\<close> (lines 1038-1052).\<close>

definition unloadVoxelChunk :: "ChunkInt2 \<Rightarrow> RenderChunkManager \<times> Env \<Rightarrow> RenderChunkManager \<times> Env" where
  "unloadVoxelChunk pos st =
     (case st of
        (m, env) \<Rightarrow>
          (case findIndex (\<lambda>renderChunk. rcPosition renderChunk = pos) (renderChunks m) of
             None \<Rightarrow> (m, env)
           | Some i \<Rightarrow>
               (m\<lparr>renderChunks := take i (renderChunks m) @ drop (Suc i) (renderChunks m)\<rparr>,
                snd (freeChunkBuffers (renderChunks m ! i) env))))"

subsection \<open>Assembling the draw calls\<close>

text \<open>\<^verbatim>\<open>sgTexture::GetVoxelOpaqueTextureAssetIndex\<close> (lines 30-68).\<close>

fun GetVoxelOpaqueTextureAssetIndex :: "VoxelType \<Rightarrow> int \<Rightarrow> error + int" where
  "GetVoxelOpaqueTextureAssetIndex Wall indexBufferIndex = Inr indexBufferIndex"
| "GetVoxelOpaqueTextureAssetIndex Floor indexBufferIndex = Inr indexBufferIndex"
| "GetVoxelOpaqueTextureAssetIndex Ceiling indexBufferIndex = Inr indexBufferIndex"
| "GetVoxelOpaqueTextureAssetIndex Diagonal indexBufferIndex = Inr indexBufferIndex"
| "GetVoxelOpaqueTextureAssetIndex Raised indexBufferIndex =
     (if indexBufferIndex = 0 then Inr 1 else if indexBufferIndex = 1 then Inr 2 else Inl Unhandled)"
| "GetVoxelOpaqueTextureAssetIndex Chasm indexBufferIndex =
     (if indexBufferIndex = 0 then Inr 0 else Inl Unhandled)"
| "GetVoxelOpaqueTextureAssetIndex TransparentWall indexBufferIndex = Inl Unhandled"
| "GetVoxelOpaqueTextureAssetIndex Edge indexBufferIndex = Inl Unhandled"
| "GetVoxelOpaqueTextureAssetIndex Door indexBufferIndex = Inl Unhandled"
| "GetVoxelOpaqueTextureAssetIndex VoxelNone indexBufferIndex = Inl NotImplemented"

text \<open>\<^verbatim>\<open>sgTexture::GetVoxelAlphaTestedTextureAssetIndex\<close> (lines 70-89).\<close>

fun GetVoxelAlphaTestedTextureAssetIndex :: "VoxelType \<Rightarrow> error + int" where
  "GetVoxelAlphaTestedTextureAssetIndex Wall = Inl Unhandled"
| "GetVoxelAlphaTestedTextureAssetIndex Floor = Inl Unhandled"
| "GetVoxelAlphaTestedTextureAssetIndex Ceiling = Inl Unhandled"
| "GetVoxelAlphaTestedTextureAssetIndex Diagonal = Inl Unhandled"
| "GetVoxelAlphaTestedTextureAssetIndex Raised = Inr 0"
| "GetVoxelAlphaTestedTextureAssetIndex TransparentWall = Inr 0"
| "GetVoxelAlphaTestedTextureAssetIndex Edge = Inr 0"
| "GetVoxelAlphaTestedTextureAssetIndex Door = Inr 0"
| "GetVoxelAlphaTestedTextureAssetIndex Chasm = Inr 1"
| "GetVoxelAlphaTestedTextureAssetIndex VoxelNone = Inl NotImplemented"

text \<open>\<^verbatim>\<open>RenderChunkManager::addVoxelDrawCall\<close> (lines 639-662).\<close>

definition addVoxelDrawCall ::
  "Double3 \<Rightarrow> Double3 \<Rightarrow> Matrix4d \<Rightarrow> Matrix4d \<Rightarrow> int \<Rightarrow> int \<Rightarrow> int \<Rightarrow> int \<Rightarrow> ObjectTextureID \<Rightarrow>
     ObjectTextureID option \<Rightarrow> TextureSamplingType \<Rightarrow> VertexShaderType \<Rightarrow> PixelShaderType \<Rightarrow> real \<Rightarrow>
     RenderDrawCall list \<Rightarrow> RenderDrawCall list" where
  "addVoxelDrawCall pos preScale rotationMatrix scaleMatrix vertexBufferId normalBufferId texCoordBufferId
     indexBufferId texture0 texture1 samplingType vertexShader pixelShader param0 drawCalls =
     drawCalls @
       [\<lparr>position = pos, preScaleTranslation = preScale, rotation = rotationMatrix, scale = scaleMatrix,
         vertexBufferID = vertexBufferId, normalBufferID = normalBufferId,
         texCoordBufferID = texCoordBufferId, indexBufferID = indexBufferId,
         textureID0 = texture0, textureID1 = texture1, textureSamplingType = samplingType,
         vertexShaderType = vertexShader, pixelShaderType = pixelShader, pixelShaderParam0 = param0\<rparr>]"

definition Double3_Zero :: Double3 where
  "Double3_Zero = (0, 0, 0)"

definition Double3_plus :: "Double3 \<Rightarrow> Double3 \<Rightarrow> Double3" where
  "Double3_plus a b =
     (case a of (ax, ay, az) \<Rightarrow> (case b of (bx, by, bz) \<Rightarrow> (ax + bx, ay + by, az + bz)))"

text \<open>The locals of one iteration of the voxel loop of \<^verbatim>\<open>loadVoxelDrawCalls\<close>.\<close>

record VoxelLocals =
  vxCoord :: VoxelInt3
  vxTextureDef :: VoxelTextureDefinition
  vxTraitsDef :: VoxelTraitsDefinition
  vxRenderMeshDef :: RenderVoxelMeshDefinition
  vxWorldPos :: Double3
  vxDoorDefID :: "int option"
  vxChasmDefID :: "int option"
  vxFadeAnimInst :: "real option"

text \<open>
  The \<^verbatim>\<open>std::find_if\<close> over \<^verbatim>\<open>voxelTextures\<close> of lines 730-743 and 797-810: the handle
  found, or \<open>-1\<close> and a logged error.
\<close>

definition findVoxelTexture :: "RenderChunkManager \<Rightarrow> TextureAsset \<Rightarrow> string \<Rightarrow> Env \<Rightarrow> ObjectTextureID \<times> Env" where
  "findVoxelTexture m asset msg env =
     (case find (\<lambda>loadedTexture. textureAsset loadedTexture = asset) (voxelTextures m) of
        Some loadedTexture \<Rightarrow> (objectTextureRef loadedTexture, env)
      | None \<Rightarrow> (- 1, DebugLogError msg env))"

text \<open>One iteration of the loop over the opaque index buffers (lines 723-786).\<close>

definition opaqueDrawCall ::
  "RenderChunkManager \<Rightarrow> real \<Rightarrow> VoxelLocals \<Rightarrow> nat \<Rightarrow> RenderChunk \<times> Env \<Rightarrow> error + RenderChunk \<times> Env" where
  "opaqueDrawCall m chasmAnimPercent l bufferIndex st =
     (case st of
        (renderChunk, env) \<Rightarrow>
          bindE (case vxChasmDefID l of
                   None \<Rightarrow>
                     bindE (GetVoxelOpaqueTextureAssetIndex (voxelType (vxTraitsDef l)) (int bufferIndex))
                       (\<lambda>textureAssetIndex.
                          bindE (getTextureAsset (vxTextureDef l) textureAssetIndex)
                            (\<lambda>asset. Inr (findVoxelTexture m asset ''Could not find opaque texture asset'' env)))
                 | Some chasmDefId \<Rightarrow>
                     bindE (getChasmFloorTextureID m (rcPosition renderChunk) chasmDefId chasmAnimPercent)
                       (\<lambda>textureId. Inr (textureId, env)))
            (\<lambda>(textureId, env1).
               if textureId < 0 then Inr (renderChunk, env1)
               else bindE (getAt (opaqueIndexBufferIDs (vxRenderMeshDef l)) (int bufferIndex))
                      (\<lambda>opaqueIndexBufferID.
                         let isChasm = (vxChasmDefID l \<noteq> None);
                             isFading = (vxFadeAnimInst l \<noteq> None);
                             add = addVoxelDrawCall (vxWorldPos l) Double3_Zero Identity Identity
                                     (rmVertexBufferID (vxRenderMeshDef l)) (rmNormalBufferID (vxRenderMeshDef l))
                                     (rmTexCoordBufferID (vxRenderMeshDef l)) opaqueIndexBufferID textureId None
                                     (if \<not> isChasm then Default else ScreenSpaceRepeatY) Voxel
                                     (if isFading then OpaqueWithFade else Opaque)
                                     (case vxFadeAnimInst l of None \<Rightarrow> 0 | Some percentFaded \<Rightarrow> percentFaded)
                         in Inr (if isChasm
                                 then renderChunk\<lparr>chasmDrawCalls := add (chasmDrawCalls renderChunk)\<rparr>
                                 else if isFading
                                 then renderChunk\<lparr>fadingDrawCalls := add (fadingDrawCalls renderChunk)\<rparr>
                                 else renderChunk\<lparr>staticDrawCalls := add (staticDrawCalls renderChunk)\<rparr>,
                                 env1))))"

text \<open>
  The \<^verbatim>\<open>switch\<close> on the door type (lines 857-950): one draw call for each visible face,
  appended to the door draw calls.
\<close>

definition swingingRotationAmount :: "Consts \<Rightarrow> real \<Rightarrow> real" where
  "swingingRotationAmount c doorAnimPercent = - (HalfPi - Epsilon c) * doorAnimPercent"

definition doorTexCoordMin :: "Consts \<Rightarrow> real \<Rightarrow> real" where
  "doorTexCoordMin c doorAnimPercent = (1 - DOOR_MIN_VISIBLE c) * doorAnimPercent"

definition doorFaceDrawCall ::
  "Consts \<Rightarrow> DoorType \<Rightarrow> real \<Rightarrow> real \<Rightarrow> VoxelLocals \<Rightarrow> ObjectTextureID \<Rightarrow> nat \<Rightarrow>
     RenderDrawCall list \<Rightarrow> RenderDrawCall list" where
  "doorFaceDrawCall c doorType ceilingScale doorAnimPercent l textureId i drawCalls =
     (let doorHingePosition = Double3_plus (vxWorldPos l) (SwingingHingeOffsets c i);
          doorBaseAngle = BaseAngles c i;
          meshDef = vxRenderMeshDef l
      in case doorType of
           Swinging \<Rightarrow>
             addVoxelDrawCall doorHingePosition Double3_Zero
               (YRotation (doorBaseAngle + swingingRotationAmount c doorAnimPercent)) Identity
               (rmVertexBufferID meshDef) (rmNormalBufferID meshDef) (rmTexCoordBufferID meshDef)
               (alphaTestedIndexBufferID meshDef) textureId None Default SwingingDoor AlphaTested 0 drawCalls
         | Sliding \<Rightarrow>
             addVoxelDrawCall doorHingePosition Double3_Zero (YRotation doorBaseAngle)
               (Scale 1 1 (1 - doorTexCoordMin c doorAnimPercent))
               (rmVertexBufferID meshDef) (rmNormalBufferID meshDef) (rmTexCoordBufferID meshDef)
               (alphaTestedIndexBufferID meshDef) textureId None Default SlidingDoor
               AlphaTestedWithVariableTexCoordUMin (doorTexCoordMin c doorAnimPercent) drawCalls
         | Raising \<Rightarrow>
             addVoxelDrawCall doorHingePosition (1, - ceilingScale, 1) (YRotation doorBaseAngle)
               (Scale 1 (1 - doorTexCoordMin c doorAnimPercent) 1)
               (rmVertexBufferID meshDef) (rmNormalBufferID meshDef) (rmTexCoordBufferID meshDef)
               (alphaTestedIndexBufferID meshDef) textureId None Default RaisingDoor
               AlphaTestedWithVariableTexCoordVMin (doorTexCoordMin c doorAnimPercent) drawCalls
         | Splitting \<Rightarrow> drawCalls)"

definition doorDrawCallsFor ::
  "Consts \<Rightarrow> DoorType \<Rightarrow> real \<Rightarrow> real \<Rightarrow> VoxelLocals \<Rightarrow> ObjectTextureID \<Rightarrow> (nat \<Rightarrow> bool) \<Rightarrow>
     RenderDrawCall list \<Rightarrow> error + RenderDrawCall list" where
  "doorDrawCallsFor c doorType ceilingScale doorAnimPercent l textureId visibleDoorFaces drawCalls =
     (if doorType = Splitting then Inl NotImplemented
      else Inr (fold (\<lambda>i dcs. if \<not> visibleDoorFaces i then dcs
                               else doorFaceDrawCall c doorType ceilingScale doorAnimPercent l textureId i dcs)
                  [0..<FACE_COUNT c] drawCalls))"

text \<open>
  The alpha-tested part of an iteration (lines 789-964). The flag of the result is \<open>False\<close>
  when a \<^verbatim>\<open>continue\<close> ends the iteration before the chasm wall part.
\<close>

definition alphaTestedDrawCalls ::
  "Consts \<Rightarrow> RenderChunkManager \<Rightarrow> VoxelChunk \<Rightarrow> real \<Rightarrow> bool \<Rightarrow> bool \<Rightarrow> VoxelLocals \<Rightarrow>
     RenderChunk \<times> Env \<Rightarrow> error + bool \<times> RenderChunk \<times> Env" where
  "alphaTestedDrawCalls c m chunk ceilingScale updateStatics updateAnimating l st =
     (case st of
        (renderChunk, env) \<Rightarrow>
          if \<not> 0 \<le> alphaTestedIndexBufferID (vxRenderMeshDef l) then Inr (True, renderChunk, env)
          else if \<not> (updateStatics \<or> (updateAnimating \<and> vxDoorDefID l \<noteq> None))
          then Inr (True, renderChunk, env)
          else if vxChasmDefID l \<noteq> None then Inl AssertFailed
          else
            bindE (GetVoxelAlphaTestedTextureAssetIndex (voxelType (vxTraitsDef l)))
              (\<lambda>textureAssetIndex.
            bindE (getTextureAsset (vxTextureDef l) textureAssetIndex)
              (\<lambda>asset.
                 (case findVoxelTexture m asset ''Could not find alpha-tested texture asset'' env of
                    (textureId, env1) \<Rightarrow>
                      if textureId < 0 then Inr (False, renderChunk, env1)
                      else (case vxDoorDefID l of
                              Some doorDefId \<Rightarrow>
                                (let doorAnimPercent =
                                       (case tryGetDoorAnimInst chunk (vxCoord l) of
                                          Some percentOpen \<Rightarrow> percentOpen | None \<Rightarrow> 0)
                                 in case tryGetDoorVisibilityInst chunk (vxCoord l) of
                                      None \<Rightarrow>
                                        Inr (False, renderChunk,
                                             DebugLogError ''Expected door visibility instance'' env1)
                                    | Some visibleFaces \<Rightarrow>
                                        (let visibleDoorFaces = (\<lambda>i. Facings c i \<in> set visibleFaces)
                                         in if \<not> length (filter visibleDoorFaces [0..<FACE_COUNT c])
                                                   \<le> MAX_FACE_COUNT c
                                            then Inl AssertFailed
                                            else bindE (getDoorDef chunk doorDefId)
                                                   (\<lambda>doorType.
                                                bindE (doorDrawCallsFor c doorType ceilingScale doorAnimPercent
                                                         l textureId visibleDoorFaces (doorDrawCalls renderChunk))
                                                   (\<lambda>dcs. Inr (True, renderChunk\<lparr>doorDrawCalls := dcs\<rparr>, env1)))))
                            | None \<Rightarrow>
                                Inr (True,
                                     renderChunk\<lparr>staticDrawCalls :=
                                       addVoxelDrawCall (vxWorldPos l) Double3_Zero Identity Identity
                                         (rmVertexBufferID (vxRenderMeshDef l))
                                         (rmNormalBufferID (vxRenderMeshDef l))
                                         (rmTexCoordBufferID (vxRenderMeshDef l))
                                         (alphaTestedIndexBufferID (vxRenderMeshDef l)) textureId None
                                         Default Voxel AlphaTested 0 (staticDrawCalls renderChunk)\<rparr>,
                                     env1))))))"

text \<open>The chasm wall part of an iteration (lines 966-992).\<close>

definition chasmWallDrawCall ::
  "RenderChunkManager \<Rightarrow> real \<Rightarrow> bool \<Rightarrow> bool \<Rightarrow> VoxelLocals \<Rightarrow> RenderChunk \<times> Env \<Rightarrow>
     error + RenderChunk \<times> Env" where
  "chasmWallDrawCall m chasmAnimPercent updateStatics updateAnimating l st =
     (case st of
        (renderChunk, env) \<Rightarrow>
          (case vxChasmDefID l of
             None \<Rightarrow> Inr (renderChunk, env)
           | Some chasmDefId \<Rightarrow>
               (case map_of (rcChasmWallIndexBufferIDs renderChunk) (vxCoord l) of
                  None \<Rightarrow> Inr (renderChunk, env)
                | Some chasmWallIndexBufferID \<Rightarrow>
                    if voxelType (vxTraitsDef l) \<noteq> Chasm then Inl AssertFailed
                    else (let isAnimatingChasm = (chasmType (vxTraitsDef l) \<noteq> Dry)
                          in if (\<not> isAnimatingChasm \<and> updateStatics) \<or> (isAnimatingChasm \<and> updateAnimating)
                             then bindE (getChasmFloorTextureID m (rcPosition renderChunk) chasmDefId
                                           chasmAnimPercent)
                                    (\<lambda>texture0.
                                  bindE (getChasmWallTextureID m (rcPosition renderChunk) chasmDefId)
                                    (\<lambda>texture1.
                                       Inr (renderChunk\<lparr>chasmDrawCalls :=
                                              addVoxelDrawCall (vxWorldPos l) Double3_Zero Identity Identity
                                                (rmVertexBufferID (vxRenderMeshDef l))
                                                (rmNormalBufferID (vxRenderMeshDef l))
                                                (rmTexCoordBufferID (vxRenderMeshDef l))
                                                chasmWallIndexBufferID texture0 (Some texture1)
                                                ScreenSpaceRepeatY Voxel OpaqueWithAlphaTestLayer 0
                                                (chasmDrawCalls renderChunk)\<rparr>, env)))
                             else Inr (renderChunk, env)))))"

text \<open>One iteration of the voxel loop of \<^verbatim>\<open>loadVoxelDrawCalls\<close> (lines 676-992).\<close>

definition voxelDrawCalls ::
  "Consts \<Rightarrow> RenderChunkManager \<Rightarrow> VoxelChunk \<Rightarrow> real \<Rightarrow> real \<Rightarrow> bool \<Rightarrow> bool \<Rightarrow> VoxelInt3 \<Rightarrow>
     RenderChunk \<times> Env \<Rightarrow> error + RenderChunk \<times> Env" where
  "voxelDrawCalls c m chunk ceilingScale chasmAnimPercent updateStatics updateAnimating voxel st =
     (case st of
        (renderChunk, env) \<Rightarrow>
          bindE (getMeshDef chunk (chunkMeshDefIDs chunk voxel))
            (\<lambda>voxelMeshDef.
               if isEmpty voxelMeshDef then Inr (renderChunk, env)
               else
          bindE (getTextureDef chunk (chunkTextureDefIDs chunk voxel))
            (\<lambda>voxelTextureDef.
          bindE (getTraitsDef chunk (chunkTraitsDefIDs chunk voxel))
            (\<lambda>voxelTraitsDef.
               (case map_of (meshDefMappings renderChunk) (chunkMeshDefIDs chunk voxel) of
                  None \<Rightarrow> Inl AssertFailed
                | Some renderMeshDefID \<Rightarrow>
          bindE (getAt (meshDefs renderChunk) renderMeshDefID)
            (\<lambda>renderMeshDef.
               (let renderChunk1 = renderChunk\<lparr>meshDefIDs := (meshDefIDs renderChunk)(voxel := renderMeshDefID)\<rparr>;
                    worldXZ = chunkVoxelToNewVoxel c (rcPosition renderChunk) (fst voxel, snd (snd voxel));
                    l = \<lparr>vxCoord = voxel, vxTextureDef = voxelTextureDef, vxTraitsDef = voxelTraitsDef,
                         vxRenderMeshDef = renderMeshDef,
                         vxWorldPos = (real_of_int (fst worldXZ),
                                       real_of_int (fst (snd voxel)) * ceilingScale,
                                       real_of_int (snd worldXZ)),
                         vxDoorDefID = tryGetDoorDefID chunk voxel,
                         vxChasmDefID = tryGetChasmDefID chunk voxel,
                         vxFadeAnimInst = tryGetFadeAnimInst chunk voxel\<rparr>;
                    canAnimate = (vxDoorDefID l \<noteq> None \<or> vxChasmDefID l \<noteq> None \<or> vxFadeAnimInst l \<noteq> None)
                in
          bindE (if (\<not> canAnimate \<and> updateStatics) \<or> (canAnimate \<and> updateAnimating)
                 then foldE (opaqueDrawCall m chasmAnimPercent l)
                        [0..<nat (opaqueIndexBufferIdCount renderMeshDef)] (renderChunk1, env)
                 else Inr (renderChunk1, env))
            (\<lambda>st1.
          bindE (alphaTestedDrawCalls c m chunk ceilingScale updateStatics updateAnimating l st1)
            (\<lambda>(goesOn, st2).
               if goesOn then chasmWallDrawCall m chasmAnimPercent updateStatics updateAnimating l st2
               else Inr st2)))))))))"

text \<open>\<^verbatim>\<open>RenderChunkManager::loadVoxelDrawCalls\<close> (lines 664-996).\<close>

definition loadVoxelDrawCalls ::
  "Consts \<Rightarrow> RenderChunkManager \<Rightarrow> VoxelChunk \<Rightarrow> real \<Rightarrow> real \<Rightarrow> bool \<Rightarrow> bool \<Rightarrow>
     RenderChunk \<times> Env \<Rightarrow> error + RenderChunk \<times> Env" where
  "loadVoxelDrawCalls c m chunk ceilingScale chasmAnimPercent updateStatics updateAnimating st =
     (case meshDefIDsDims (fst st) of
        (w, h, d) \<Rightarrow>
          foldE (voxelDrawCalls c m chunk ceilingScale chasmAnimPercent updateStatics updateAnimating)
            (voxelCoords w h d) st)"

text \<open>\<^verbatim>\<open>RenderChunkManager::rebuildVoxelChunkDrawCalls\<close> (lines 1011-1036).\<close>

definition clearRequestedLists :: "bool \<Rightarrow> bool \<Rightarrow> RenderChunk \<Rightarrow> RenderChunk" where
  "clearRequestedLists updateStatics updateAnimating renderChunk =
     (let renderChunk1 = (if updateStatics then renderChunk\<lparr>staticDrawCalls := []\<rparr> else renderChunk)
      in if updateAnimating
         then renderChunk1\<lparr>doorDrawCalls := [], chasmDrawCalls := [], fadingDrawCalls := []\<rparr>
         else renderChunk1)"

definition rebuildVoxelChunkDrawCalls ::
  "Consts \<Rightarrow> VoxelChunk \<Rightarrow> real \<Rightarrow> real \<Rightarrow> bool \<Rightarrow> bool \<Rightarrow> RenderChunkManager \<times> Env \<Rightarrow>
     error + RenderChunkManager \<times> Env" where
  "rebuildVoxelChunkDrawCalls c chunk ceilingScale chasmAnimPercent updateStatics updateAnimating st =
     (case st of
        (m, env) \<Rightarrow>
          (case tryGetRenderChunkIndex m (chunkPosition chunk) of
             None \<Rightarrow> Inr (m, DebugLogError ''No render chunk available'' env)
           | Some renderChunkIndex \<Rightarrow>
               bindE (loadVoxelDrawCalls c m chunk ceilingScale chasmAnimPercent updateStatics updateAnimating
                        (clearRequestedLists updateStatics updateAnimating (renderChunks m ! renderChunkIndex),
                         env))
                 (\<lambda>(renderChunk, env1).
                    Inr (m\<lparr>renderChunks := (renderChunks m)[renderChunkIndex := renderChunk]\<rparr>, env1))))"

text \<open>\<^verbatim>\<open>RenderChunkManager::rebuildVoxelDrawCallsList\<close> (lines 1054-1071).\<close>

definition rebuildVoxelDrawCallsList :: "RenderChunkManager \<Rightarrow> RenderChunkManager" where
  "rebuildVoxelDrawCallsList m =
     m\<lparr>drawCallsCache :=
         concat (map (\<lambda>renderChunk. staticDrawCalls renderChunk @ doorDrawCalls renderChunk @
                        chasmDrawCalls renderChunk @ fadingDrawCalls renderChunk) (renderChunks m))\<rparr>"

text \<open>\<^verbatim>\<open>RenderChunkManager::unloadScene\<close> (lines 1073-1087).\<close>

definition unloadScene :: "RenderChunkManager \<times> Env \<Rightarrow> RenderChunkManager \<times> Env" where
  "unloadScene st =
     (case st of
        (m, env) \<Rightarrow>
          (m\<lparr>voxelTextures := [], chasmFloorTextureLists := [], chasmTextureKeys := [],
             renderChunks := [], drawCallsCache := []\<rparr>,
           fold (\<lambda>renderChunk e. snd (freeChunkBuffers renderChunk e)) (renderChunks m)
             (fold freeHandle
                (map objectTextureRef (voxelTextures m) @
                 concat (map objectTextureRefs (chasmFloorTextureLists m))) env)))"

subsection \<open>Concrete inputs\<close>

text \<open>
  The constants the sources leave open, fixed for the concrete inputs below: the four
  adjacency bits and the fifteen non-empty combinations of Section 4.4, four door faces of
  which at most two are visible, and a chunk of a single column so that a chunk is the
  voxel at \<open>(0, 0, 0)\<close>.
\<close>

definition exampleConsts :: Consts where
  "exampleConsts =
     \<lparr>CHUNK_WIDTH = 1, CHUNK_DEPTH = 1,
      chunkVoxelToNewVoxel = (\<lambda>chunk voxel. (fst chunk + fst voxel, snd chunk + snd voxel)),
      Epsilon = 1 / 100000, DOOR_MIN_VISIBLE = 1 / 10, FACE_COUNT = 4,
      Facings = (\<lambda>i. [PositiveX, NegativeX, PositiveZ, NegativeZ] ! i),
      SwingingHingeOffsets = (\<lambda>i. [(1, 0, 1), (0, 0, 0), (0, 0, 1), (1, 0, 0)] ! i),
      BaseAngles = (\<lambda>i. [0, 1, 2, 3] ! i),
      MAX_FACE_COUNT = 2,
      CHASM_WALL_NORTH = 1, CHASM_WALL_EAST = 2, CHASM_WALL_SOUTH = 4, CHASM_WALL_WEST = 8,
      CHASM_WALL_COMBINATION_COUNT = 15,
      GetChasmWallIndex = (\<lambda>north east south west.
         (if north then 1 else 0) + (if east then 2 else 0) + (if south then 4 else 0)
         + (if west then 8 else 0) - 1),
      northIndices = [0, 1, 2, 2, 3, 0], eastIndices = [4, 5, 6, 6, 7, 4],
      southIndices = [8, 9, 10, 10, 11, 8], westIndices = [12, 13, 14, 14, 15, 12]\<rparr>"

definition emptyEnv :: Env where
  "emptyEnv =
     \<lparr>outcomes = [], nextID = 0, created = [], freed = [], indexBufferSizes = [],
      indexBufferData = [], texels = [], debugLog = []\<rparr>"

definition emptyManager :: RenderChunkManager where
  "emptyManager =
     \<lparr>voxelTextures = [], chasmFloorTextureLists = [], chasmTextureKeys = [], renderChunks = [],
      chasmWallIndexBufferIDs = [], drawCallsCache = []\<rparr>"

text \<open>A newly constructed manager after \<^verbatim>\<open>init\<close>.\<close>

definition startManager :: "Consts \<Rightarrow> Env \<Rightarrow> RenderChunkManager \<times> Env" where
  "startManager c env =
     (case init c env of
        (bufferIDs, env1) \<Rightarrow> (emptyManager\<lparr>chasmWallIndexBufferIDs := bufferIDs\<rparr>, env1))"

definition airMeshDef :: VoxelMeshDefinition where
  "airMeshDef =
     \<lparr>isEmpty = True, rendererVertexCount = 0, opaqueIndices = [], alphaTestedIndices = [],
      alphaTestedIndicesListCount = 0\<rparr>"

definition chasmMeshDef :: VoxelMeshDefinition where
  "chasmMeshDef =
     \<lparr>isEmpty = False, rendererVertexCount = 20, opaqueIndices = [[0, 1, 2, 2, 3, 0]],
      alphaTestedIndices = [], alphaTestedIndicesListCount = 0\<rparr>"

text \<open>
  A chunk at \<open>(0, 0)\<close> whose voxel is a dry chasm (SolidColor floor of palette index 5) with
  a wall face to the north.
\<close>

definition dryChasmChunk :: VoxelChunk where
  "dryChasmChunk =
     \<lparr>chunkPosition = (0, 0), chunkHeight = 1,
      chunkTextureDefs = [[''floor'', ''wall'']],
      chunkChasmDefs = [\<lparr>chasmAnimType = SolidColor, solidColorPaletteIndex = 5,
                         animatedTextureAssets = [], wallTextureAsset = ''wall''\<rparr>],
      chunkMeshDefs = [airMeshDef, chasmMeshDef],
      chunkTraitsDefs = [\<lparr>voxelType = Chasm, chasmType = Dry\<rparr>],
      chunkDoorDefs = [],
      chunkMeshDefIDs = (\<lambda>v. 1), chunkTextureDefIDs = (\<lambda>v. 0), chunkTraitsDefIDs = (\<lambda>v. 0),
      tryGetDoorDefID = (\<lambda>v. None), tryGetChasmDefID = (\<lambda>v. Some 0),
      tryGetFadeAnimInst = (\<lambda>v. None), tryGetDoorAnimInst = (\<lambda>v. None),
      tryGetDoorVisibilityInst = (\<lambda>v. None),
      tryGetChasmWallInst = (\<lambda>v. Some (True, False, False, False))\<rparr>"

definition allAssets :: TextureManager where
  "allAssets = (\<lambda>asset. Some 0)"

text \<open>The four draw call lists of the render chunks of a manager.\<close>

definition drawLists ::
  "RenderChunkManager \<times> Env \<Rightarrow>
     (RenderDrawCall list \<times> RenderDrawCall list \<times> RenderDrawCall list \<times> RenderDrawCall list) list" where
  "drawLists st =
     map (\<lambda>renderChunk. (staticDrawCalls renderChunk, doorDrawCalls renderChunk,
                           chasmDrawCalls renderChunk, fadingDrawCalls renderChunk))
       (renderChunks (fst st))"

definition drawListShaders ::
  "RenderChunkManager \<times> Env \<Rightarrow>
     (PixelShaderType list \<times> PixelShaderType list \<times> PixelShaderType list \<times> PixelShaderType list) list" where
  "drawListShaders st =
     map (\<lambda>renderChunk. (map pixelShaderType (staticDrawCalls renderChunk),
                           map pixelShaderType (doorDrawCalls renderChunk),
                           map pixelShaderType (chasmDrawCalls renderChunk),
                           map pixelShaderType (fadingDrawCalls renderChunk)))
       (renderChunks (fst st))"

text \<open>The manager after startup and \<^verbatim>\<open>loadVoxelChunk\<close> of a chunk, every backend call succeeding.\<close>

definition loadedChunk :: "VoxelChunk \<Rightarrow> error + RenderChunkManager \<times> Env" where
  "loadedChunk chunk =
     loadVoxelChunk exampleConsts allAssets chunk (startManager exampleConsts emptyEnv)"

text \<open>A chunk whose voxel is a swinging door, visible from one side.\<close>

definition doorMeshDef :: VoxelMeshDefinition where
  "doorMeshDef =
     \<lparr>isEmpty = False, rendererVertexCount = 16, opaqueIndices = [],
      alphaTestedIndices = [0, 1, 2, 2, 3, 0], alphaTestedIndicesListCount = 1\<rparr>"

definition doorChunk :: VoxelChunk where
  "doorChunk =
     \<lparr>chunkPosition = (0, 0), chunkHeight = 1,
      chunkTextureDefs = [[''door'']],
      chunkChasmDefs = [],
      chunkMeshDefs = [airMeshDef, doorMeshDef],
      chunkTraitsDefs = [\<lparr>voxelType = Door, chasmType = Dry\<rparr>],
      chunkDoorDefs = [Swinging],
      chunkMeshDefIDs = (\<lambda>v. 1), chunkTextureDefIDs = (\<lambda>v. 0), chunkTraitsDefIDs = (\<lambda>v. 0),
      tryGetDoorDefID = (\<lambda>v. Some 0), tryGetChasmDefID = (\<lambda>v. None),
      tryGetFadeAnimInst = (\<lambda>v. None), tryGetDoorAnimInst = (\<lambda>v. None),
      tryGetDoorVisibilityInst = (\<lambda>v. Some [PositiveX]),
      tryGetChasmWallInst = (\<lambda>v. None)\<rparr>"

text \<open>A chunk with the one mesh shape of a wall: three opaque index groups.\<close>

definition wallMeshDef :: VoxelMeshDefinition where
  "wallMeshDef =
     \<lparr>isEmpty = False, rendererVertexCount = 24,
      opaqueIndices = [[0, 1, 2, 2, 3, 0, 4, 5, 6, 6, 7, 4, 8, 9, 10, 10, 11, 8, 12, 13, 14, 14, 15, 12],
                       [16, 17, 18, 18, 19, 16], [20, 21, 22, 22, 23, 20]],
      alphaTestedIndices = [], alphaTestedIndicesListCount = 0\<rparr>"

definition wallChunk :: VoxelChunk where
  "wallChunk =
     \<lparr>chunkPosition = (0, 0), chunkHeight = 1,
      chunkTextureDefs = [[''side'', ''bottom'', ''top'']],
      chunkChasmDefs = [],
      chunkMeshDefs = [wallMeshDef],
      chunkTraitsDefs = [\<lparr>voxelType = Wall, chasmType = Dry\<rparr>],
      chunkDoorDefs = [],
      chunkMeshDefIDs = (\<lambda>v. 0), chunkTextureDefIDs = (\<lambda>v. 0), chunkTraitsDefIDs = (\<lambda>v. 0),
      tryGetDoorDefID = (\<lambda>v. None), tryGetChasmDefID = (\<lambda>v. None),
      tryGetFadeAnimInst = (\<lambda>v. None), tryGetDoorAnimInst = (\<lambda>v. None),
      tryGetDoorVisibilityInst = (\<lambda>v. None),
      tryGetChasmWallInst = (\<lambda>v. None)\<rparr>"

text \<open>
  A chunk whose voxel is a water chasm with a one-frame Animated floor, and an asset
  service that does not have that frame.
\<close>

definition waterChasmChunk :: VoxelChunk where
  "waterChasmChunk =
     \<lparr>chunkPosition = (0, 0), chunkHeight = 1,
      chunkTextureDefs = [[''floor'', ''wall'']],
      chunkChasmDefs = [\<lparr>chasmAnimType = Animated, solidColorPaletteIndex = 0,
                         animatedTextureAssets = [''water''], wallTextureAsset = ''wall''\<rparr>],
      chunkMeshDefs = [airMeshDef, chasmMeshDef],
      chunkTraitsDefs = [\<lparr>voxelType = Chasm, chasmType = Wet\<rparr>],
      chunkDoorDefs = [],
      chunkMeshDefIDs = (\<lambda>v. 1), chunkTextureDefIDs = (\<lambda>v. 0), chunkTraitsDefIDs = (\<lambda>v. 0),
      tryGetDoorDefID = (\<lambda>v. None), tryGetChasmDefID = (\<lambda>v. Some 0),
      tryGetFadeAnimInst = (\<lambda>v. None), tryGetDoorAnimInst = (\<lambda>v. None),
      tryGetDoorVisibilityInst = (\<lambda>v. None),
      tryGetChasmWallInst = (\<lambda>v. None)\<rparr>"

definition withoutWater :: TextureManager where
  "withoutWater = (\<lambda>asset. if asset = ''water'' then None else Some 0)"


subsection \<open>The faces of a chasm wall table slot\<close>




subsection \<open>The content of a chasm floor\<close>









section \<open>Properties\<close>

text \<open>The definitions a concrete run of the model unfolds.\<close>

lemmas model_defs =
  bindE_def getAt_def startManager_def init_def initChasmWallSlot_def tryWriteIndices_def countFace_def
  indicesPerFace_def tryCreateIndexBuffer_def tryCreateHandle_def nextOutcome_def populateIndexBuffer_def
  exampleConsts_def emptyEnv_def emptyManager_def loadVoxelChunk_def loadVoxelTextures_def
  tryCreateObjectTexture_def LoadChasmDefTextures_def addChasmTextureKey_def LoadedChasmFloorComparer_def
  lockObjectTexture_def writeTexel_def initColor_def initTextured_def getChasmDef_def
  loadVoxelMeshBuffers_def loadVoxelMeshBuffersStep_def loadMeshDef_def loadOpaqueIndexBuffer_def
  tryCreateVertexBuffer_def tryCreateAttributeBuffer_def emptyRenderVoxelMeshDefinition_def
  freeMeshBuffers_def freeIfValid_def freeHandle_def freeChunkBuffers_def unloadVoxelChunk_def
  initRenderChunk_def emplace_def loadVoxelChasmWalls_def loadVoxelChasmWallsStep_def voxelCoords_def
  allAssets_def drawLists_def drawListShaders_def loadedChunk_def
  airMeshDef_def chasmMeshDef_def doorMeshDef_def wallMeshDef_def withoutWater_def
  loadAnimatedChasmTextures.simps LoadVoxelDefTextures.simps
  rebuildVoxelChunkDrawCalls_def tryGetRenderChunkIndex_def clearRequestedLists_def loadVoxelDrawCalls_def
  voxelDrawCalls_def getMeshDef_def getTextureDef_def getTraitsDef_def getDoorDef_def getTextureAsset_def
  opaqueDrawCall_def findVoxelTexture_def
  getChasmFloorTextureID_def getChasmWallTextureID_def getTextureIndex_def alphaTestedDrawCalls_def
  doorDrawCallsFor_def doorFaceDrawCall_def Double3_plus_def
  chasmWallDrawCall_def addVoxelDrawCall_def Double3_Zero_def DebugLogError_def DebugLogWarning_def
  upt_rec Let_def

section \<open>Chasm frame selection\<close>






section \<open>Loops, searches and the growth of the caches\<close>












section \<open>Rebuilding the draw calls of a chunk that is not loaded\<close>

theorem rebuild_unloaded_chunk_returns:
  "rebuildVoxelChunkDrawCalls exampleConsts dryChasmChunk 1 0 True True (emptyManager, emptyEnv)
     = Inr (emptyManager, emptyEnv\<lparr>debugLog := [LogError ''No render chunk available'']\<rparr>)"
  by (simp add: rebuildVoxelChunkDrawCalls_def tryGetRenderChunkIndex_def emptyManager_def
        DebugLogError_def emptyEnv_def)

text \<open>
  C7, amended. \<^verbatim>\<open>rebuildVoxelChunkDrawCalls\<close> for a chunk position that has no render chunk
  logs an error and returns normally: no assertion fails, and the manager (caches, render
  chunks and draw call lists) is left as it was.
\<close>

theorem rebuild_without_render_chunk:
  assumes "tryGetRenderChunkIndex m (chunkPosition chunk) = None"
  shows "rebuildVoxelChunkDrawCalls c chunk ceilingScale chasmAnimPercent updateStatics updateAnimating (m, env)
           = Inr (m, DebugLogError ''No render chunk available'' env)"
  using assms by (simp add: rebuildVoxelChunkDrawCalls_def)

theorem rebuild_without_render_chunk_witness:
  "tryGetRenderChunkIndex emptyManager (chunkPosition dryChasmChunk) = None
   \<and> rebuildVoxelChunkDrawCalls exampleConsts dryChasmChunk 1 (1 / 2) False True (emptyManager, emptyEnv)
       = Inr (emptyManager, DebugLogError ''No render chunk available'' emptyEnv)"
proof -
  have none: "tryGetRenderChunkIndex emptyManager (chunkPosition dryChasmChunk) = None"
    by (simp add: tryGetRenderChunkIndex_def emptyManager_def)
  from none rebuild_without_render_chunk [OF none] show ?thesis by simp
qed

section \<open>Loading a chunk and unloading it again\<close>







section \<open>Deduplication in the texture caches\<close>

















lemma freeMeshBuffers_outcomes: "outcomes (snd (freeMeshBuffers r e)) = outcomes e"
proof -
  have f: "outcomes (fold freeHandle hs e') = outcomes e'" for hs e'
    by (induction hs arbitrary: e') (simp_all add: freeHandle_def)
  show ?thesis by (simp add: freeMeshBuffers_def freeIfValid_def freeHandle_def f)
qed


















section \<open>Rebuilding statics and animating voxels separately\<close>

text \<open>
  C1. On the chunk whose voxel is a dry chasm with a wall face, one rebuild with both
  flags set fills the chasm list with the floor draw call and the wall draw call; the
  rebuild of the statics followed by the rebuild of the animating voxels ends with the
  floor draw call alone: the wall draw call, added to the chasm list by the first rebuild,
  is cleared by the second and not added again.
\<close>

theorem split_rebuild_omits_dry_chasm_wall:
  "map_sum id drawListShaders
     (bindE (loadedChunk dryChasmChunk)
        (rebuildVoxelChunkDrawCalls exampleConsts dryChasmChunk 1 0 True True))
     = Inr [([], [], [Opaque, OpaqueWithAlphaTestLayer], [])]
   \<and> map_sum id drawListShaders
       (bindE (bindE (loadedChunk dryChasmChunk)
                 (rebuildVoxelChunkDrawCalls exampleConsts dryChasmChunk 1 0 True False))
          (rebuildVoxelChunkDrawCalls exampleConsts dryChasmChunk 1 0 False True))
       = Inr [([], [], [Opaque], [])]"
  by (simp add: model_defs dryChasmChunk_def)

text \<open>
  C2. A rebuild with \<open>updateStatics = true\<close> and \<open>updateAnimating = false\<close> changes lists
  it was not asked to update: on the dry chasm chunk it appends the wall draw call to
  the chasm list (once more with every such rebuild), and on the chunk whose voxel is a
  door it appends the door's draw call to the door list.
\<close>

theorem statics_rebuild_changes_animating_lists:
  "map_sum id drawListShaders (loadedChunk dryChasmChunk) = Inr [([], [], [], [])]
   \<and> map_sum id drawListShaders
       (bindE (loadedChunk dryChasmChunk)
          (rebuildVoxelChunkDrawCalls exampleConsts dryChasmChunk 1 0 True False))
       = Inr [([], [], [OpaqueWithAlphaTestLayer], [])]
   \<and> map_sum id drawListShaders
       (bindE (bindE (loadedChunk dryChasmChunk)
                 (rebuildVoxelChunkDrawCalls exampleConsts dryChasmChunk 1 0 True False))
          (rebuildVoxelChunkDrawCalls exampleConsts dryChasmChunk 1 0 True False))
       = Inr [([], [], [OpaqueWithAlphaTestLayer, OpaqueWithAlphaTestLayer], [])]
   \<and> map_sum id drawListShaders (loadedChunk doorChunk) = Inr [([], [], [], [])]
   \<and> map_sum id drawListShaders
       (bindE (loadedChunk doorChunk)
          (rebuildVoxelChunkDrawCalls exampleConsts doorChunk 1 0 True False))
       = Inr [([], [AlphaTested], [], [])]"
  by (simp add: model_defs dryChasmChunk_def doorChunk_def)

section \<open>A failed buffer creation while loading a mesh shape\<close>

text \<open>
  C5. For the wall shape, when the creation of the first opaque index buffer fails (the
  fourth creation call), the vertex, normal and texture coordinate buffers 0, 1 and 2 are
  released, but the loop goes on: the index buffers 3 and 4 are created for the same
  shape, and the shape is added to the render chunk with no vertex buffers, an index
  buffer count of 2 and the handles in slots 1 and 2.
\<close>

theorem opaque_index_failure_leaves_partial_mesh:
  "(case loadVoxelMeshBuffers wallChunk
           (initRenderChunk exampleConsts (0, 0) 1, emptyEnv\<lparr>outcomes := [True, True, True, False]\<rparr>) of
      (renderChunk, env) \<Rightarrow>
        (meshDefs renderChunk, meshDefMappings renderChunk, created env, freed env, debugLog env))
     = ([\<lparr>rmVertexBufferID = - 1, rmNormalBufferID = - 1, rmTexCoordBufferID = - 1,
          opaqueIndexBufferIDs = [- 1, 3, 4], opaqueIndexBufferIdCount = 2,
          alphaTestedIndexBufferID = - 1\<rparr>],
        [(0, 0)], [0, 1, 2, 3, 4], [0, 1, 2], [LogError ''Could not create opaque index buffer''])"
  by (simp add: model_defs wallChunk_def)

section \<open>A chasm floor list without textures\<close>

text \<open>
  C10. Loading the water chasm chunk when its only frame cannot be loaded puts a floor
  list without any texture handle into the cache, with a key that refers to it; the
  floor texture lookup of the draw call assembler then fails the assertion of
  \<^verbatim>\<open>getTextureIndex\<close>, and so does the rebuild of the chunk's animating draw calls.
\<close>

theorem failed_frames_leave_empty_floor_list:
  "map_sum id (\<lambda>st. (chasmFloorTextureLists (fst st), chasmTextureKeys (fst st)))
     (loadVoxelTextures withoutWater waterChasmChunk (startManager exampleConsts emptyEnv))
     = Inr ([\<lparr>animType = Animated, paletteIndex = 0, textureAssets = [], objectTextureRefs = []\<rparr>],
            [\<lparr>chunkPos = (0, 0), chasmDefID = 0, chasmFloorListIndex = 0, chasmWallIndex = 1\<rparr>])
   \<and> bindE (loadVoxelTextures withoutWater waterChasmChunk (startManager exampleConsts emptyEnv))
       (\<lambda>st. getChasmFloorTextureID (fst st) (0, 0) 0 (1 / 2))
       = Inl AssertFailed
   \<and> bindE (loadVoxelChunk exampleConsts withoutWater waterChasmChunk (startManager exampleConsts emptyEnv))
       (rebuildVoxelChunkDrawCalls exampleConsts waterChasmChunk 1 (1 / 2) False True)
       = Inl AssertFailed"
  by (simp add: model_defs waterChasmChunk_def)

section \<open>Door transforms\<close>





section \<open>The chasm wall index buffer table\<close>









end
